theory Spec2Isabelle
  imports Complex_Main
begin

section \<open>kubectl create persistentvolumeclaim: option validation and claim construction\<close>

text \<open>
  A shallow embedding of \<^verbatim>\<open>pkg/cmd/create/create_persistentvolumeclaim.go\<close>:
  the methods \<^verbatim>\<open>Validate\<close>, \<^verbatim>\<open>createPersistentVolumeClaim\<close>,
  \<^verbatim>\<open>parseAccessModes\<close> and \<^verbatim>\<open>parseResources\<close> of
  \<^verbatim>\<open>CreatePersistentVolumeClaimOptions\<close>. Go strings are byte sequences and
  are modelled as \<^typ>\<open>string\<close>; a Go \<^verbatim>\<open>error\<close> result is an
  \<open>error option\<close> (\<open>None\<close> for \<^verbatim>\<open>nil\<close>); a nil pointer, nil slice or
  nil map is \<open>None\<close>.
\<close>

subsection \<open>Quantities (k8s.io/apimachinery/pkg/api/resource)\<close>

datatype Format = DecimalExponent | BinarySI | DecimalSI

text \<open>
  A parsed quantity: its exact numeric value and the notation it was written in.
\<close>

record Quantity =
  amount :: rat
  format :: Format

text \<open>
  Modelled from the spec: the method \<^verbatim>\<open>Quantity.Cmp\<close> belongs to the quantity
  library, which is not part of this repository. The spec describes it as
  \<^verbatim>\<open>compare(a, b) -> {less, equal, greater}\<close>, a total ordering on the numeric
  value that treats differently suffixed values of equal magnitude as equal. The
  receiver is the first argument; the result is \<open>-1\<close>, \<open>0\<close> or \<open>1\<close>.
\<close>

definition Cmp :: "Quantity \<Rightarrow> Quantity \<Rightarrow> int" where
  "Cmp q y = (if amount q < amount y then - 1 else if amount q = amount y then 0 else 1)"

text \<open>
  Modelled from the spec: \<^verbatim>\<open>ParseQuantity\<close> belongs to the same library. The
  functions of this file take the parser as a parameter \<open>parseQ\<close> of type
  \<open>string \<Rightarrow> string + Quantity\<close> (\<open>Inl\<close> carries the message of the parse
  error), so every theorem holds for any parser. The definitions below are a fragment
  of the grammar the spec describes (a non-empty run of decimal digits followed by
  nothing or by one of the suffixes Ki, Mi, Gi, Ti, M, G, T), used to evaluate the
  theorems at concrete inputs.
\<close>

definition digitValue :: "char \<rightharpoonup> nat" where
  "digitValue = map_of
     [(CHR ''0'', 0), (CHR ''1'', 1), (CHR ''2'', 2), (CHR ''3'', 3), (CHR ''4'', 4),
      (CHR ''5'', 5), (CHR ''6'', 6), (CHR ''7'', 7), (CHR ''8'', 8), (CHR ''9'', 9)]"

definition isDigit :: "char \<Rightarrow> bool" where
  "isDigit c = (digitValue c \<noteq> None)"

fun decimalValue :: "nat \<Rightarrow> string \<Rightarrow> nat" where
  "decimalValue acc [] = acc"
| "decimalValue acc (c # cs) =
     decimalValue (10 * acc + (case digitValue c of None \<Rightarrow> 0 | Some d \<Rightarrow> d)) cs"

definition suffixScale :: "string \<rightharpoonup> rat \<times> Format" where
  "suffixScale = map_of
     [([], (1, DecimalSI)),
      (''Ki'', (2 ^ 10, BinarySI)), (''Mi'', (2 ^ 20, BinarySI)),
      (''Gi'', (2 ^ 30, BinarySI)), (''Ti'', (2 ^ 40, BinarySI)),
      (''M'', (10 ^ 6, DecimalSI)), (''G'', (10 ^ 9, DecimalSI)),
      (''T'', (10 ^ 12, DecimalSI))]"

text \<open>
  Modelled from the spec: the fragment of \<^verbatim>\<open>ParseQuantity\<close>. The value is the
  number written by the digits times the scale of the suffix; an input without leading
  digit or with a suffix outside the table is a parse error, the empty string included.
\<close>

definition ParseQuantity_fragment :: "string \<Rightarrow> string + Quantity" where
  "ParseQuantity_fragment str =
     (let ds = takeWhile isDigit str; suffix = dropWhile isDigit str in
      if ds = [] then Inl ''quantities must match the regular expression''
      else (case suffixScale suffix of
              None \<Rightarrow> Inl ''unable to parse quantity suffix''
            | Some (scale, fmt) \<Rightarrow>
                Inr \<lparr>amount = of_nat (decimalValue 0 ds) * scale, format = fmt\<rparr>))"

subsection \<open>Data model\<close>

text \<open>
  The fields of \<^verbatim>\<open>CreatePersistentVolumeClaimOptions\<close> that the four methods
  read. The remaining fields (printer, client, dry-run strategy, field manager, IO
  streams) are used only by \<^verbatim>\<open>Complete\<close> and \<^verbatim>\<open>Run\<close>.
\<close>

record CreatePersistentVolumeClaimOptions =
  Name :: string
  Namespace :: string
  StorageRequest :: string
  StorageLimit :: string
  StorageClassName :: string
  AccessModes :: string
  EnforceNamespace :: bool

text \<open>
  An error is either the one returned by the quantity parser, passed on unchanged, or
  one built by \<^verbatim>\<open>fmt.Errorf\<close> with the given text.
\<close>

datatype error = ParseError string | Errorf string

type_synonym ResourceName = string
type_synonym ResourceList = "ResourceName \<rightharpoonup> Quantity"
type_synonym PersistentVolumeAccessMode = string

definition ResourceStorage :: ResourceName where
  "ResourceStorage = ''storage''"

record VolumeResourceRequirements =
  Limits :: "ResourceList option"
  Requests :: "ResourceList option"

record TypeMeta =
  Kind :: string
  APIVersion :: string

record ObjectMeta =
  meta_Name :: string
  meta_Namespace :: string

text \<open>
  The fields of \<^verbatim>\<open>PersistentVolumeClaimSpec\<close> that the command assigns; no
  other field of the struct is ever written, so each keeps its zero value.
\<close>

record PersistentVolumeClaimSpec =
  spec_AccessModes :: "PersistentVolumeAccessMode list option"
  Resources :: VolumeResourceRequirements
  spec_StorageClassName :: "string option"

record PersistentVolumeClaim =
  pvc_TypeMeta :: TypeMeta
  pvc_ObjectMeta :: ObjectMeta
  Spec :: PersistentVolumeClaimSpec

subsection \<open>strings.Split and slices.Contains\<close>

text \<open>
  \<^verbatim>\<open>strings.Split(s, sep)\<close> for a separator of one byte, the only way the
  command calls it (\<^verbatim>\<open>","\<close>): cut at the first occurrence of the separator and
  go on with what follows it; a string without separator is the single token.
\<close>

function Split :: "string \<Rightarrow> char \<Rightarrow> string list" where
  "Split s sep =
     (if sep \<in> set s
      then takeWhile (\<lambda>c. c \<noteq> sep) s # Split (tl (dropWhile (\<lambda>c. c \<noteq> sep) s)) sep
      else [s])"
  by pat_completeness auto
termination
proof (relation "measure (\<lambda>(s, sep). length s)")
  show "wf (measure (\<lambda>(s, sep). length s))"
    by simp
next
  fix s :: string and sep :: char
  assume "sep \<in> set s"
  then have "dropWhile (\<lambda>c. c \<noteq> sep) s \<noteq> []"
    by (simp add: dropWhile_eq_Nil_conv)
  then have "length (tl (dropWhile (\<lambda>c. c \<noteq> sep) s)) < length (dropWhile (\<lambda>c. c \<noteq> sep) s)"
    by (cases "dropWhile (\<lambda>c. c \<noteq> sep) s") simp_all
  also have "\<dots> \<le> length s"
    by (rule length_dropWhile_le)
  finally show "((tl (dropWhile (\<lambda>c. c \<noteq> sep) s), sep), (s, sep)) \<in> measure (\<lambda>(s, sep). length s)"
    by simp
qed

declare Split.simps [simp del]

definition Contains :: "'a list \<Rightarrow> 'a \<Rightarrow> bool" where
  "Contains s v = (v \<in> set s)"

subsection \<open>Validate\<close>

definition validModes :: "string list" where
  "validModes = [''ReadOnlyMany'', ''ReadWriteMany'', ''ReadWriteOnce'']"

text \<open>
  The loop over the tokens: the first token outside \<open>validModes\<close> ends it with an
  error that names the token.
\<close>

fun checkAccessModes :: "string list \<Rightarrow> error option" where
  "checkAccessModes [] = None"
| "checkAccessModes (am # aml) =
     (if \<not> Contains validModes am
      then Some (Errorf (''provided access mode '' @ am @ '' is invalid''))
      else checkAccessModes aml)"

definition Validate :: "CreatePersistentVolumeClaimOptions \<Rightarrow> error option" where
  "Validate opts =
     (if length (Name opts) = 0 then Some (Errorf ''name must be specified'')
      else if length (StorageRequest opts) = 0 \<and> length (StorageRequest opts) = 0
        then Some (Errorf ''storage-request must be specified'')
      else if length (AccessModes opts) \<noteq> 0
        then checkAccessModes (Split (AccessModes opts) CHR '','')
      else None)"

subsection \<open>Building the claim\<close>

text \<open>The loop appends every token to the slice, converted to an access mode.\<close>

definition parseAccessModes ::
  "CreatePersistentVolumeClaimOptions \<Rightarrow> PersistentVolumeAccessMode list" where
  "parseAccessModes opts =
     foldl (\<lambda>accessModes am. accessModes @ [am]) [] (Split (AccessModes opts) CHR '','')"

text \<open>
  \<^verbatim>\<open>parseResources\<close> returns the requirements built so far together with the
  error, as the Go function does: on a failure after the request was parsed, the
  returned value already holds the request.
\<close>

definition parseResources ::
  "(string \<Rightarrow> string + Quantity) \<Rightarrow> CreatePersistentVolumeClaimOptions
     \<Rightarrow> VolumeResourceRequirements \<times> error option" where
  "parseResources parseQ opts =
     (let vrr = \<lparr>Limits = None, Requests = None\<rparr> in
      case parseQ (StorageRequest opts) of
        Inl err \<Rightarrow> (vrr, Some (ParseError err))
      | Inr rr \<Rightarrow>
          (let vrr = vrr\<lparr>Requests := Some [ResourceStorage \<mapsto> rr]\<rparr> in
           if length (StorageLimit opts) \<noteq> 0 then
             (case parseQ (StorageLimit opts) of
                Inl err \<Rightarrow> (vrr, Some (ParseError err))
              | Inr rl \<Rightarrow>
                  if Cmp rl rr < 1
                  then (vrr, Some (Errorf
                         ''Resource limit is the same/less than the resource request''))
                  else (vrr\<lparr>Limits := Some [ResourceStorage \<mapsto> rl]\<rparr>, None))
           else (vrr, None)))"

text \<open>
  \<^verbatim>\<open>corev1.SchemeGroupVersion.String()\<close> is the version of the core API group,
  \<^verbatim>\<open>"v1"\<close>.
\<close>

definition SchemeGroupVersion_String :: string where
  "SchemeGroupVersion_String = ''v1''"

definition createPersistentVolumeClaim ::
  "(string \<Rightarrow> string + Quantity) \<Rightarrow> CreatePersistentVolumeClaimOptions
     \<Rightarrow> PersistentVolumeClaim option \<times> error option" where
  "createPersistentVolumeClaim parseQ opts =
     (let namespace = (if EnforceNamespace opts then Namespace opts else []);
          pvc = \<lparr>pvc_TypeMeta =
                   \<lparr>Kind = ''PersistentVolumeClaim'', APIVersion = SchemeGroupVersion_String\<rparr>,
                 pvc_ObjectMeta = \<lparr>meta_Name = Name opts, meta_Namespace = namespace\<rparr>,
                 Spec = \<lparr>spec_AccessModes = None,
                         Resources = \<lparr>Limits = None, Requests = None\<rparr>,
                         spec_StorageClassName = None\<rparr>\<rparr>
      in case parseResources parseQ opts of
           (ps, Some err) \<Rightarrow> (None, Some err)
         | (ps, None) \<Rightarrow>
             (let pvc = pvc\<lparr>Spec := (Spec pvc)\<lparr>Resources := ps\<rparr>\<rparr>;
                  pvc = (if length (AccessModes opts) \<noteq> 0
                         then pvc\<lparr>Spec := (Spec pvc)\<lparr>spec_AccessModes :=
                                                      Some (parseAccessModes opts)\<rparr>\<rparr>
                         else pvc);
                  pvc = (if length (StorageClassName opts) \<noteq> 0
                         then pvc\<lparr>Spec := (Spec pvc)\<lparr>spec_StorageClassName :=
                                                      Some (StorageClassName opts)\<rparr>\<rparr>
                         else pvc)
              in (Some pvc, None)))"

subsection \<open>Test fixture\<close>

text \<open>
  The unit tests build the options from a name, the request, the limit, the access
  modes and the storage class name; every other field keeps its zero value.
\<close>

definition testOptions ::
  "string \<Rightarrow> string \<Rightarrow> string \<Rightarrow> string \<Rightarrow> string \<Rightarrow> CreatePersistentVolumeClaimOptions" where
  "testOptions name storageRequest storageLimit accessModes storageClassName =
     \<lparr>Name = name, Namespace = [], StorageRequest = storageRequest,
      StorageLimit = storageLimit, StorageClassName = storageClassName,
      AccessModes = accessModes, EnforceNamespace = False\<rparr>"

section \<open>Facts about strings.Split\<close>

text \<open>
  The tokens contain no separator, and joining them with the separator gives the
  input back: together the two facts determine the token list, so \<open>Split\<close> is the
  split at every separator, in input order, empty tokens included.
\<close>

lemma Split_no_sep: "sep \<notin> set s \<Longrightarrow> Split s sep = [s]"
  by (subst Split.simps) simp

lemma Split_first_sep: "sep \<notin> set t \<Longrightarrow> Split (t @ sep # r) sep = t # Split r sep"
proof -
  assume t: "sep \<notin> set t"
  then have tw: "takeWhile (\<lambda>c. c \<noteq> sep) (t @ sep # r) = t"
    by (induction t) auto
  from t have dw: "dropWhile (\<lambda>c. c \<noteq> sep) (t @ sep # r) = sep # r"
    by (induction t) auto
  show ?thesis
    by (subst Split.simps) (simp add: tw dw)
qed

lemma Split_sep_free: "t \<in> set (Split s sep) \<Longrightarrow> sep \<notin> set t"
proof (induction s sep rule: Split.induct)
  case (1 s sep)
  show ?case
  proof (cases "sep \<in> set s")
    case True
    with 1 show ?thesis
      by (subst (asm) (2) Split.simps) (auto dest: set_takeWhileD)
  next
    case False
    with 1 show ?thesis
      by (simp add: Split_no_sep)
  qed
qed

lemma split_at_first:
  assumes "sep \<in> set s"
  shows "s = takeWhile (\<lambda>c. c \<noteq> sep) s @ sep # tl (dropWhile (\<lambda>c. c \<noteq> sep) s)"
proof -
  from assms have ne: "dropWhile (\<lambda>c. c \<noteq> sep) s \<noteq> []"
    by (simp add: dropWhile_eq_Nil_conv)
  then have "hd (dropWhile (\<lambda>c. c \<noteq> sep) s) = sep"
    using hd_dropWhile [of "\<lambda>c. c \<noteq> sep" s] by simp
  with ne have "dropWhile (\<lambda>c. c \<noteq> sep) s = sep # tl (dropWhile (\<lambda>c. c \<noteq> sep) s)"
    by (cases "dropWhile (\<lambda>c. c \<noteq> sep) s") simp_all
  then have "takeWhile (\<lambda>c. c \<noteq> sep) s @ sep # tl (dropWhile (\<lambda>c. c \<noteq> sep) s)
      = takeWhile (\<lambda>c. c \<noteq> sep) s @ dropWhile (\<lambda>c. c \<noteq> sep) s"
    by simp
  then show ?thesis
    by simp
qed

lemma Split_join: "concat (map (\<lambda>t. sep # t) (Split s sep)) = sep # s"
proof (induction s sep rule: Split.induct)
  case (1 s sep)
  show ?case
  proof (cases "sep \<in> set s")
    case True
    have "concat (map (\<lambda>t. sep # t) (Split s sep))
        = sep # takeWhile (\<lambda>c. c \<noteq> sep) s
            @ concat (map (\<lambda>t. sep # t) (Split (tl (dropWhile (\<lambda>c. c \<noteq> sep) s)) sep))"
      using True by (subst Split.simps) simp
    also have "\<dots> = sep # takeWhile (\<lambda>c. c \<noteq> sep) s @ sep # tl (dropWhile (\<lambda>c. c \<noteq> sep) s)"
      using 1 [OF True] by simp
    also have "\<dots> = sep # s"
      using split_at_first [OF True] by simp
    finally show ?thesis .
  next
    case False
    then show ?thesis
      by (simp add: Split_no_sep)
  qed
qed

lemma Split_append_sep: "Split (a @ sep # b) sep = Split a sep @ Split b sep"
proof (induction a sep rule: Split.induct)
  case (1 s sep)
  show ?case
  proof (cases "sep \<in> set s")
    case True
    define t where "t = takeWhile (\<lambda>c. c \<noteq> sep) s"
    define r where "r = tl (dropWhile (\<lambda>c. c \<noteq> sep) s)"
    have s: "s = t @ sep # r"
      unfolding t_def r_def by (rule split_at_first [OF True])
    have t: "sep \<notin> set t"
      unfolding t_def by (auto dest: set_takeWhileD)
    have "Split (s @ sep # b) sep = Split (t @ sep # (r @ sep # b)) sep"
      by (simp add: s)
    also have "\<dots> = t # Split (r @ sep # b) sep"
      by (rule Split_first_sep [OF t])
    also have "\<dots> = t # Split r sep @ Split b sep"
      using 1 [OF True] by (simp add: r_def)
    also have "\<dots> = Split (t @ sep # r) sep @ Split b sep"
      by (simp add: Split_first_sep [OF t])
    finally show ?thesis
      by (simp add: s [symmetric])
  next
    case False
    then show ?thesis
      by (simp add: Split_no_sep Split_first_sep)
  qed
qed

lemma Split_Nil: "Split [] sep = [[]]"
  by (simp add: Split_no_sep)

lemma Split_trailing_sep: "[] \<in> set (Split (a @ [sep]) sep)"
  by (simp add: Split_append_sep Split_Nil)

lemma Split_double_sep: "[] \<in> set (Split (a @ sep # sep # b) sep)"
proof -
  have "Split (sep # b) sep = [] # Split b sep"
    using Split_first_sep [of sep "[]" b] by simp
  then show ?thesis
    by (simp add: Split_append_sep)
qed

section \<open>Facts about the access-mode loop, the comparison and the builder\<close>

lemma foldl_append_one: "foldl (\<lambda>accessModes am. accessModes @ [am]) ys xs = ys @ xs"
  by (induction xs arbitrary: ys) simp_all

lemma parseAccessModes_Split: "parseAccessModes opts = Split (AccessModes opts) CHR '',''"
  by (simp add: parseAccessModes_def foldl_append_one)

lemma checkAccessModes_find:
  "checkAccessModes aml =
     (case List.find (\<lambda>am. am \<notin> set validModes) aml of
        None \<Rightarrow> None
      | Some am \<Rightarrow> Some (Errorf (''provided access mode '' @ am @ '' is invalid'')))"
  by (induction aml) (simp_all add: Contains_def)

lemma checkAccessModes_None: "(checkAccessModes aml = None) = (set aml \<subseteq> set validModes)"
  by (induction aml) (simp_all add: Contains_def)

lemma checkAccessModes_Some:
  "checkAccessModes aml = Some e \<Longrightarrow>
     \<exists>am. am \<in> set aml \<and> am \<notin> set validModes
       \<and> e = Errorf (''provided access mode '' @ am @ '' is invalid'')"
  by (induction aml) (auto simp: Contains_def split: if_splits)

lemma Cmp_less_one: "(Cmp rl rr < 1) = (amount rl \<le> amount rr)"
  by (auto simp: Cmp_def)

lemma parseResources_cases:
  "parseResources parseQ opts =
     (case parseQ (StorageRequest opts) of
        Inl err \<Rightarrow> (\<lparr>Limits = None, Requests = None\<rparr>, Some (ParseError err))
      | Inr rr \<Rightarrow>
          if StorageLimit opts = []
          then (\<lparr>Limits = None, Requests = Some [ResourceStorage \<mapsto> rr]\<rparr>, None)
          else (case parseQ (StorageLimit opts) of
                  Inl err \<Rightarrow>
                    (\<lparr>Limits = None, Requests = Some [ResourceStorage \<mapsto> rr]\<rparr>,
                     Some (ParseError err))
                | Inr rl \<Rightarrow>
                    if amount rl \<le> amount rr
                    then (\<lparr>Limits = None, Requests = Some [ResourceStorage \<mapsto> rr]\<rparr>,
                          Some (Errorf
                            ''Resource limit is the same/less than the resource request''))
                    else (\<lparr>Limits = Some [ResourceStorage \<mapsto> rl],
                           Requests = Some [ResourceStorage \<mapsto> rr]\<rparr>, None)))"
  by (simp add: parseResources_def Cmp_less_one split: sum.splits)

lemma create_on_error:
  "parseResources parseQ opts = (ps, Some e) \<Longrightarrow>
     createPersistentVolumeClaim parseQ opts = (None, Some e)"
  by (simp add: createPersistentVolumeClaim_def)

lemma create_on_success:
  "parseResources parseQ opts = (ps, None) \<Longrightarrow>
     createPersistentVolumeClaim parseQ opts =
       (Some \<lparr>pvc_TypeMeta = \<lparr>Kind = ''PersistentVolumeClaim'', APIVersion = ''v1''\<rparr>,
              pvc_ObjectMeta =
                \<lparr>meta_Name = Name opts,
                 meta_Namespace = (if EnforceNamespace opts then Namespace opts else [])\<rparr>,
              Spec =
                \<lparr>spec_AccessModes =
                   (if AccessModes opts = [] then None
                    else Some (Split (AccessModes opts) CHR '','')),
                 Resources = ps,
                 spec_StorageClassName =
                   (if StorageClassName opts = [] then None
                    else Some (StorageClassName opts))\<rparr>\<rparr>,
        None)"
  by (simp add: createPersistentVolumeClaim_def SchemeGroupVersion_String_def
      parseAccessModes_Split)

lemma create_result:
  "createPersistentVolumeClaim parseQ opts =
     (case snd (parseResources parseQ opts) of
        Some err \<Rightarrow> (None, Some err)
      | None \<Rightarrow>
          (Some \<lparr>pvc_TypeMeta = \<lparr>Kind = ''PersistentVolumeClaim'', APIVersion = ''v1''\<rparr>,
                 pvc_ObjectMeta =
                   \<lparr>meta_Name = Name opts,
                    meta_Namespace = (if EnforceNamespace opts then Namespace opts else [])\<rparr>,
                 Spec =
                   \<lparr>spec_AccessModes =
                      (if AccessModes opts = [] then None
                       else Some (Split (AccessModes opts) CHR '','')),
                    Resources = fst (parseResources parseQ opts),
                    spec_StorageClassName =
                      (if StorageClassName opts = [] then None
                       else Some (StorageClassName opts))\<rparr>\<rparr>,
           None))"
proof (cases "parseResources parseQ opts")
  case (Pair ps err)
  then show ?thesis
    by (cases err) (simp_all add: create_on_error create_on_success)
qed

lemma build_fails_iff:
  "(snd (createPersistentVolumeClaim parseQ opts) \<noteq> None) =
     (case parseQ (StorageRequest opts) of
        Inl err \<Rightarrow> True
      | Inr rr \<Rightarrow>
          StorageLimit opts \<noteq> [] \<and>
          (case parseQ (StorageLimit opts) of
             Inl err \<Rightarrow> True
           | Inr rl \<Rightarrow> amount rl \<le> amount rr))"
  by (simp add: create_result parseResources_cases split: sum.splits option.splits)

section \<open>The quantity fragment and strings.Split at the inputs of the tests\<close>

lemma ParseQuantity_fragment_5Gi:
  "ParseQuantity_fragment ''5Gi'' = Inr \<lparr>amount = 5368709120, format = BinarySI\<rparr>"
  by (simp add: ParseQuantity_fragment_def isDigit_def digitValue_def suffixScale_def)

lemma ParseQuantity_fragment_5120Mi:
  "ParseQuantity_fragment ''5120Mi'' = Inr \<lparr>amount = 5368709120, format = BinarySI\<rparr>"
  by (simp add: ParseQuantity_fragment_def isDigit_def digitValue_def suffixScale_def)

lemma ParseQuantity_fragment_10Gi:
  "ParseQuantity_fragment ''10Gi'' = Inr \<lparr>amount = 10737418240, format = BinarySI\<rparr>"
  by (simp add: ParseQuantity_fragment_def isDigit_def digitValue_def suffixScale_def)

lemma ParseQuantity_fragment_bad:
  "ParseQuantity_fragment ''five'' = Inl ''quantities must match the regular expression''"
  by (simp add: ParseQuantity_fragment_def isDigit_def digitValue_def suffixScale_def)

lemma Split_with_invalid_and_repeated:
  "Split ''ReadWriteOnce,Bogus,ReadWriteOnce'' CHR '',''
     = [''ReadWriteOnce'', ''Bogus'', ''ReadWriteOnce'']"
  by (simp add: Split.simps)

section \<open>Properties of Validate\<close>

text \<open>
  Claim C5. A request with an empty name is rejected with the error
  "name must be specified", whatever the other fields hold.
\<close>

theorem validate_empty_name:
  "Name opts = [] \<Longrightarrow> Validate opts = Some (Errorf ''name must be specified'')"
  by (simp add: Validate_def)

theorem validate_empty_name_witness:
  "Name (testOptions [] ''5Gi'' ''1Gi'' ''ReadWriteBoth'' ''test-class'') = []
   \<and> Validate (testOptions [] ''5Gi'' ''1Gi'' ''ReadWriteBoth'' ''test-class'')
       = Some (Errorf ''name must be specified'')"
  using validate_empty_name [of "testOptions [] ''5Gi'' ''1Gi'' ''ReadWriteBoth'' ''test-class''"]
  by (simp add: testOptions_def)

text \<open>
  Claim C3. With a non-empty name, a request with an empty storageRequest is rejected
  with the error "storage-request must be specified", and that error is returned if
  and only if storageRequest is empty: the condition of the source, which tests the
  same field twice, is the rule "storageRequest must be non-empty".
\<close>

theorem validate_storage_request:
  assumes "Name opts \<noteq> []"
  shows "(Validate opts = Some (Errorf ''storage-request must be specified''))
           = (StorageRequest opts = [])"
proof (cases "StorageRequest opts = []")
  case True
  with assms show ?thesis
    by (simp add: Validate_def)
next
  case False
  have "checkAccessModes aml \<noteq> Some (Errorf ''storage-request must be specified'')" for aml
    using checkAccessModes_Some [of aml "Errorf ''storage-request must be specified''"]
    by auto
  with assms False show ?thesis
    by (simp add: Validate_def)
qed

theorem validate_storage_request_witness:
  "Name (testOptions ''pvc-testing'' [] [] [] []) \<noteq> []
   \<and> Validate (testOptions ''pvc-testing'' [] [] [] [])
       = Some (Errorf ''storage-request must be specified'')
   \<and> StorageRequest (testOptions ''pvc-testing'' [] [] [] []) = []"
  using validate_storage_request [of "testOptions ''pvc-testing'' [] [] [] []"]
  by (simp add: testOptions_def)

text \<open>
  Claim C4. For a request that passes the checks of name and storageRequest and has a
  non-empty accessModes string, Validate accepts if and only if every comma-separated
  token is one of ReadOnlyMany, ReadWriteMany, ReadWriteOnce; otherwise the error is
  "provided access mode <token> is invalid" for the first token, in input order, that
  is outside the set.
\<close>

theorem validate_access_modes:
  assumes "Name opts \<noteq> []" and "StorageRequest opts \<noteq> []" and "AccessModes opts \<noteq> []"
  shows "Validate opts =
           (case List.find (\<lambda>am. am \<notin> {''ReadOnlyMany'', ''ReadWriteMany'', ''ReadWriteOnce''})
                   (Split (AccessModes opts) CHR '','') of
              None \<Rightarrow> None
            | Some am \<Rightarrow> Some (Errorf (''provided access mode '' @ am @ '' is invalid'')))
       \<and> ((Validate opts = None) =
            (\<forall>am \<in> set (Split (AccessModes opts) CHR '','').
               am \<in> {''ReadOnlyMany'', ''ReadWriteMany'', ''ReadWriteOnce''}))"
proof -
  have modes: "set validModes = {''ReadOnlyMany'', ''ReadWriteMany'', ''ReadWriteOnce''}"
    by (simp add: validModes_def)
  from assms have v: "Validate opts = checkAccessModes (Split (AccessModes opts) CHR '','')"
    by (simp add: Validate_def)
  have "Validate opts =
      (case List.find (\<lambda>am. am \<notin> set validModes) (Split (AccessModes opts) CHR '','') of
         None \<Rightarrow> None
       | Some am \<Rightarrow> Some (Errorf (''provided access mode '' @ am @ '' is invalid'')))"
    unfolding v by (rule checkAccessModes_find)
  moreover have "(Validate opts = None) =
      (set (Split (AccessModes opts) CHR '','') \<subseteq> set validModes)"
    unfolding v by (rule checkAccessModes_None)
  ultimately show ?thesis
    unfolding modes by blast
qed

theorem validate_access_modes_witness:
  "Name (testOptions ''pvc-testing'' ''5Gi'' [] ''ReadWriteOnce,ReadWriteBoth,Bogus'' []) \<noteq> []
   \<and> StorageRequest
        (testOptions ''pvc-testing'' ''5Gi'' [] ''ReadWriteOnce,ReadWriteBoth,Bogus'' []) \<noteq> []
   \<and> AccessModes
        (testOptions ''pvc-testing'' ''5Gi'' [] ''ReadWriteOnce,ReadWriteBoth,Bogus'' []) \<noteq> []
   \<and> Validate (testOptions ''pvc-testing'' ''5Gi'' [] ''ReadWriteOnce,ReadWriteBoth,Bogus'' [])
       = Some (Errorf ''provided access mode ReadWriteBoth is invalid'')"
  using validate_access_modes
    [of "testOptions ''pvc-testing'' ''5Gi'' [] ''ReadWriteOnce,ReadWriteBoth,Bogus'' []"]
  by (simp add: testOptions_def Split.simps)

text \<open>
  Claim C10. A non-empty accessModes string whose split holds an empty token (a
  trailing comma, two commas in a row) is rejected, whatever the other tokens are:
  the empty string is not an allowed mode. When name and storageRequest are present
  the error is the access-mode error for a token outside the allowed set.
\<close>

theorem validate_rejects_empty_token:
  assumes "AccessModes opts \<noteq> []"
    and "[] \<in> set (Split (AccessModes opts) CHR '','')"
  shows "Validate opts \<noteq> None
       \<and> (Name opts \<noteq> [] \<and> StorageRequest opts \<noteq> [] \<longrightarrow>
            (\<exists>am. am \<in> set (Split (AccessModes opts) CHR '','')
               \<and> am \<notin> {''ReadOnlyMany'', ''ReadWriteMany'', ''ReadWriteOnce''}
               \<and> Validate opts = Some (Errorf (''provided access mode '' @ am @ '' is invalid''))))"
proof -
  have "[] \<notin> set validModes"
    by (simp add: validModes_def)
  with assms(2) have "\<not> set (Split (AccessModes opts) CHR '','') \<subseteq> set validModes"
    by blast
  then have "checkAccessModes (Split (AccessModes opts) CHR '','') \<noteq> None"
    by (simp add: checkAccessModes_None)
  then obtain e where e: "checkAccessModes (Split (AccessModes opts) CHR '','') = Some e"
    by blast
  from checkAccessModes_Some [OF e] obtain am where
    "am \<in> set (Split (AccessModes opts) CHR '','')"
    "am \<notin> {''ReadOnlyMany'', ''ReadWriteMany'', ''ReadWriteOnce''}"
    "e = Errorf (''provided access mode '' @ am @ '' is invalid'')"
    by (auto simp: validModes_def)
  with e assms(1) show ?thesis
    by (auto simp: Validate_def)
qed

theorem validate_rejects_empty_token_witness:
  "AccessModes (testOptions ''pvc-testing'' ''5Gi'' [] ''ReadWriteOnce,'' []) \<noteq> []
   \<and> [] \<in> set (Split (AccessModes (testOptions ''pvc-testing'' ''5Gi'' [] ''ReadWriteOnce,'' []))
                 CHR '','')
   \<and> Validate (testOptions ''pvc-testing'' ''5Gi'' [] ''ReadWriteOnce,'' [])
       = Some (Errorf ''provided access mode  is invalid'')"
  using validate_rejects_empty_token
    [of "testOptions ''pvc-testing'' ''5Gi'' [] ''ReadWriteOnce,'' []"]
  by (simp add: testOptions_def Split.simps Validate_def Contains_def validModes_def)

section \<open>Properties of the builder\<close>

text \<open>
  Claim C1. When request and limit both parse, the limit is not empty and the value of
  the limit is less than or equal to the value of the request, in whatever units the
  two are written, building fails with the limit-comparison error.
\<close>

theorem limit_not_above_request_rejected:
  assumes "StorageLimit opts \<noteq> []"
    and "parseQ (StorageRequest opts) = Inr rr"
    and "parseQ (StorageLimit opts) = Inr rl"
    and "amount rl \<le> amount rr"
  shows "snd (parseResources parseQ opts) =
           Some (Errorf ''Resource limit is the same/less than the resource request'')
       \<and> createPersistentVolumeClaim parseQ opts =
           (None, Some (Errorf ''Resource limit is the same/less than the resource request''))"
proof -
  from assms have "parseResources parseQ opts =
      (\<lparr>Limits = None, Requests = Some [ResourceStorage \<mapsto> rr]\<rparr>,
       Some (Errorf ''Resource limit is the same/less than the resource request''))"
    by (simp add: parseResources_cases)
  then show ?thesis
    by (simp add: create_on_error)
qed

theorem limit_not_above_request_rejected_witness:
  "StorageLimit (testOptions ''test-pvc'' ''5Gi'' ''5120Mi'' [] []) \<noteq> []
   \<and> ParseQuantity_fragment (StorageRequest (testOptions ''test-pvc'' ''5Gi'' ''5120Mi'' [] []))
       = Inr \<lparr>amount = 5368709120, format = BinarySI\<rparr>
   \<and> ParseQuantity_fragment (StorageLimit (testOptions ''test-pvc'' ''5Gi'' ''5120Mi'' [] []))
       = Inr \<lparr>amount = 5368709120, format = BinarySI\<rparr>
   \<and> amount \<lparr>amount = 5368709120, format = BinarySI\<rparr>
       \<le> amount \<lparr>amount = 5368709120, format = BinarySI\<rparr>
   \<and> createPersistentVolumeClaim ParseQuantity_fragment
        (testOptions ''test-pvc'' ''5Gi'' ''5120Mi'' [] []) =
       (None, Some (Errorf ''Resource limit is the same/less than the resource request''))"
  using limit_not_above_request_rejected
    [of "testOptions ''test-pvc'' ''5Gi'' ''5120Mi'' [] []" ParseQuantity_fragment
        "\<lparr>amount = 5368709120, format = BinarySI\<rparr>"
        "\<lparr>amount = 5368709120, format = BinarySI\<rparr>"]
  by (simp add: testOptions_def ParseQuantity_fragment_5Gi ParseQuantity_fragment_5120Mi)

text \<open>
  Claim C2. When request and limit both parse, the limit is not empty and the value of
  the limit is strictly greater than the value of the request, building succeeds;
  limits[storage] is the parsed limit and requests[storage] the parsed request.
\<close>

theorem limit_above_request_accepted:
  assumes "StorageLimit opts \<noteq> []"
    and "parseQ (StorageRequest opts) = Inr rr"
    and "parseQ (StorageLimit opts) = Inr rl"
    and "amount rr < amount rl"
  shows "\<exists>pvc. createPersistentVolumeClaim parseQ opts = (Some pvc, None)
           \<and> Limits (Resources (Spec pvc)) = Some [ResourceStorage \<mapsto> rl]
           \<and> Requests (Resources (Spec pvc)) = Some [ResourceStorage \<mapsto> rr]"
proof -
  from assms have "parseResources parseQ opts =
      (\<lparr>Limits = Some [ResourceStorage \<mapsto> rl],
        Requests = Some [ResourceStorage \<mapsto> rr]\<rparr>, None)"
    by (simp add: parseResources_cases)
  then show ?thesis
    by (simp add: create_on_success)
qed

theorem limit_above_request_accepted_witness:
  "StorageLimit (testOptions ''test-pvc'' ''5Gi'' ''10Gi'' [] []) \<noteq> []
   \<and> ParseQuantity_fragment (StorageRequest (testOptions ''test-pvc'' ''5Gi'' ''10Gi'' [] []))
       = Inr \<lparr>amount = 5368709120, format = BinarySI\<rparr>
   \<and> ParseQuantity_fragment (StorageLimit (testOptions ''test-pvc'' ''5Gi'' ''10Gi'' [] []))
       = Inr \<lparr>amount = 10737418240, format = BinarySI\<rparr>
   \<and> amount \<lparr>amount = 5368709120, format = BinarySI\<rparr>
       < amount \<lparr>amount = 10737418240, format = BinarySI\<rparr>
   \<and> (\<exists>pvc. createPersistentVolumeClaim ParseQuantity_fragment
              (testOptions ''test-pvc'' ''5Gi'' ''10Gi'' [] []) = (Some pvc, None)
         \<and> Limits (Resources (Spec pvc)) =
             Some [ResourceStorage \<mapsto> \<lparr>amount = 10737418240, format = BinarySI\<rparr>]
         \<and> Requests (Resources (Spec pvc)) =
             Some [ResourceStorage \<mapsto> \<lparr>amount = 5368709120, format = BinarySI\<rparr>])"
  using limit_above_request_accepted
    [of "testOptions ''test-pvc'' ''5Gi'' ''10Gi'' [] []" ParseQuantity_fragment
        "\<lparr>amount = 5368709120, format = BinarySI\<rparr>"
        "\<lparr>amount = 10737418240, format = BinarySI\<rparr>"]
  by (simp add: testOptions_def ParseQuantity_fragment_5Gi ParseQuantity_fragment_10Gi)

text \<open>
  Claim C7. Whenever the builder returns an error, the claim it returns is nil: no
  partially populated claim comes with an error. (By \<open>build_fails_iff\<close> the builder
  returns an error exactly on a parse error of the request or of a non-empty limit,
  or on a limit not strictly greater than the request.)
\<close>

theorem failed_build_returns_nil:
  assumes "snd (createPersistentVolumeClaim parseQ opts) = Some e"
  shows "createPersistentVolumeClaim parseQ opts = (None, Some e)"
  using assms by (auto simp: create_result split: option.splits)

theorem failed_build_returns_nil_witness:
  "snd (createPersistentVolumeClaim ParseQuantity_fragment
          (testOptions ''test-pvc'' ''5Gi'' ''5Gi'' ''ReadWriteOnce'' [])) =
     Some (Errorf ''Resource limit is the same/less than the resource request'')
   \<and> createPersistentVolumeClaim ParseQuantity_fragment
          (testOptions ''test-pvc'' ''5Gi'' ''5Gi'' ''ReadWriteOnce'' []) =
     (None, Some (Errorf ''Resource limit is the same/less than the resource request''))
   \<and> snd (createPersistentVolumeClaim ParseQuantity_fragment
          (testOptions ''test-pvc'' ''five'' [] [] [])) =
     Some (ParseError ''quantities must match the regular expression'')
   \<and> createPersistentVolumeClaim ParseQuantity_fragment
          (testOptions ''test-pvc'' ''five'' [] [] []) =
     (None, Some (ParseError ''quantities must match the regular expression''))"
proof -
  have limit: "snd (createPersistentVolumeClaim ParseQuantity_fragment
          (testOptions ''test-pvc'' ''5Gi'' ''5Gi'' ''ReadWriteOnce'' [])) =
     Some (Errorf ''Resource limit is the same/less than the resource request'')"
    by (simp add: create_result parseResources_cases testOptions_def
        ParseQuantity_fragment_5Gi)
  have request: "snd (createPersistentVolumeClaim ParseQuantity_fragment
          (testOptions ''test-pvc'' ''five'' [] [] [])) =
     Some (ParseError ''quantities must match the regular expression'')"
    by (simp add: create_result parseResources_cases testOptions_def
        ParseQuantity_fragment_bad)
  show ?thesis
    using limit request failed_build_returns_nil [OF limit] failed_build_returns_nil [OF request]
    by simp
qed

text \<open>
  Claim C6. The namespace of a built claim is the namespace of the request when
  EnforceNamespace is set, and the empty string when it is not, whatever namespace
  the request holds.
\<close>

theorem namespace_only_when_enforced:
  assumes "createPersistentVolumeClaim parseQ opts = (Some pvc, err)"
  shows "meta_Namespace (pvc_ObjectMeta pvc) =
           (if EnforceNamespace opts then Namespace opts else [])"
  using assms by (auto simp: create_result split: option.splits)

theorem namespace_only_when_enforced_witness:
  "map_option (\<lambda>pvc. meta_Namespace (pvc_ObjectMeta pvc))
     (fst (createPersistentVolumeClaim ParseQuantity_fragment
        ((testOptions ''test-pvc'' ''5Gi'' [] [] [])
           \<lparr>Namespace := ''team-a'', EnforceNamespace := True\<rparr>))) = Some ''team-a''
   \<and> map_option (\<lambda>pvc. meta_Namespace (pvc_ObjectMeta pvc))
     (fst (createPersistentVolumeClaim ParseQuantity_fragment
        ((testOptions ''test-pvc'' ''5Gi'' [] [] [])
           \<lparr>Namespace := ''team-a'', EnforceNamespace := False\<rparr>))) = Some []"
proof -
  let ?on = "(testOptions ''test-pvc'' ''5Gi'' [] [] [])
               \<lparr>Namespace := ''team-a'', EnforceNamespace := True\<rparr>"
  let ?off = "(testOptions ''test-pvc'' ''5Gi'' [] [] [])
               \<lparr>Namespace := ''team-a'', EnforceNamespace := False\<rparr>"
  obtain p where p: "createPersistentVolumeClaim ParseQuantity_fragment ?on = (Some p, None)"
    by (simp add: create_result parseResources_cases testOptions_def
        ParseQuantity_fragment_5Gi)
  obtain q where q: "createPersistentVolumeClaim ParseQuantity_fragment ?off = (Some q, None)"
    by (simp add: create_result parseResources_cases testOptions_def
        ParseQuantity_fragment_5Gi)
  have "meta_Namespace (pvc_ObjectMeta p) = ''team-a''"
    using namespace_only_when_enforced [OF p] by (simp add: testOptions_def)
  moreover have "meta_Namespace (pvc_ObjectMeta q) = []"
    using namespace_only_when_enforced [OF q] by (simp add: testOptions_def)
  ultimately show ?thesis
    by (simp add: p q)
qed

text \<open>
  Claim C8. A request whose storageRequest parses and whose storageLimit, accessModes
  and storageClassName are empty builds a claim in which, besides the type and the
  identity, only requests[storage] is set: no limits, no access modes, no storage
  class name.
\<close>

theorem request_only_build:
  assumes "parseQ (StorageRequest opts) = Inr rr"
    and "StorageLimit opts = []"
    and "AccessModes opts = []"
    and "StorageClassName opts = []"
  shows "createPersistentVolumeClaim parseQ opts =
           (Some \<lparr>pvc_TypeMeta = \<lparr>Kind = ''PersistentVolumeClaim'', APIVersion = ''v1''\<rparr>,
                  pvc_ObjectMeta =
                    \<lparr>meta_Name = Name opts,
                     meta_Namespace = (if EnforceNamespace opts then Namespace opts else [])\<rparr>,
                  Spec =
                    \<lparr>spec_AccessModes = None,
                     Resources = \<lparr>Limits = None, Requests = Some [ResourceStorage \<mapsto> rr]\<rparr>,
                     spec_StorageClassName = None\<rparr>\<rparr>,
            None)"
  using assms by (simp add: create_result parseResources_cases)

theorem request_only_build_witness:
  "ParseQuantity_fragment (StorageRequest (testOptions ''test-pvc'' ''5Gi'' [] [] []))
     = Inr \<lparr>amount = 5368709120, format = BinarySI\<rparr>
   \<and> StorageLimit (testOptions ''test-pvc'' ''5Gi'' [] [] []) = []
   \<and> AccessModes (testOptions ''test-pvc'' ''5Gi'' [] [] []) = []
   \<and> StorageClassName (testOptions ''test-pvc'' ''5Gi'' [] [] []) = []
   \<and> createPersistentVolumeClaim ParseQuantity_fragment (testOptions ''test-pvc'' ''5Gi'' [] [] []) =
       (Some \<lparr>pvc_TypeMeta = \<lparr>Kind = ''PersistentVolumeClaim'', APIVersion = ''v1''\<rparr>,
              pvc_ObjectMeta = \<lparr>meta_Name = ''test-pvc'', meta_Namespace = []\<rparr>,
              Spec =
                \<lparr>spec_AccessModes = None,
                 Resources =
                   \<lparr>Limits = None,
                    Requests = Some [ResourceStorage \<mapsto>
                                 \<lparr>amount = 5368709120, format = BinarySI\<rparr>]\<rparr>,
                 spec_StorageClassName = None\<rparr>\<rparr>,
        None)"
  using request_only_build
    [of ParseQuantity_fragment "testOptions ''test-pvc'' ''5Gi'' [] [] []"
        "\<lparr>amount = 5368709120, format = BinarySI\<rparr>"]
  by (simp add: testOptions_def ParseQuantity_fragment_5Gi)

text \<open>
  Claim C9. For a non-empty accessModes string, whenever the resources parse the
  builder succeeds and the access modes of the claim are exactly the tokens of the
  split, in input order: they contain no comma and joined by commas they give the
  input back, so nothing is dropped, merged or checked against the allowed set.
\<close>

theorem access_modes_carried_verbatim:
  assumes "AccessModes opts \<noteq> []"
    and "snd (parseResources parseQ opts) = None"
  shows "\<exists>pvc. createPersistentVolumeClaim parseQ opts = (Some pvc, None)
           \<and> spec_AccessModes (Spec pvc) = Some (Split (AccessModes opts) CHR '','')
           \<and> concat (map (\<lambda>am. CHR '','' # am) (Split (AccessModes opts) CHR '',''))
               = CHR '','' # AccessModes opts
           \<and> (\<forall>am \<in> set (Split (AccessModes opts) CHR '',''). CHR '','' \<notin> set am)"
  using assms by (simp add: create_result Split_join Split_sep_free)

theorem access_modes_carried_verbatim_witness:
  "AccessModes (testOptions ''test-pvc'' ''5Gi'' [] ''ReadWriteOnce,Bogus,ReadWriteOnce'' []) \<noteq> []
   \<and> snd (parseResources ParseQuantity_fragment
            (testOptions ''test-pvc'' ''5Gi'' [] ''ReadWriteOnce,Bogus,ReadWriteOnce'' [])) = None
   \<and> (\<exists>pvc. createPersistentVolumeClaim ParseQuantity_fragment
              (testOptions ''test-pvc'' ''5Gi'' [] ''ReadWriteOnce,Bogus,ReadWriteOnce'' [])
             = (Some pvc, None)
         \<and> spec_AccessModes (Spec pvc) = Some [''ReadWriteOnce'', ''Bogus'', ''ReadWriteOnce''])"
  using access_modes_carried_verbatim
    [of "testOptions ''test-pvc'' ''5Gi'' [] ''ReadWriteOnce,Bogus,ReadWriteOnce'' []"
        ParseQuantity_fragment]
  by (simp add: testOptions_def parseResources_cases ParseQuantity_fragment_5Gi Split_with_invalid_and_repeated)

end
